theory Spec2Isabelle
  imports Main "HOL-Library.Word"
begin

section \<open>CompliantVault: the contract state\<close>

text \<open>
  The vault of \<^verbatim>\<open>contracts/CompliantVault.sol\<close>. Addresses are 160-bit words and request
  identifiers 256-bit words. Every \<^verbatim>\<open>uint256\<close> quantity is an \<open>int\<close> with the checks of
  Solidity 0.8 written out: an addition that leaves the range and a subtraction that goes below
  zero revert with \<open>Panic\<close>, they never wrap.
\<close>

type_synonym address = "160 word"
type_synonym bytes32 = "256 word"
type_synonym bytes = "8 word list"

definition max_uint256 :: int where
  "max_uint256 = 2 ^ 256 - 1"

definition is_uint256 :: "int \<Rightarrow> bool" where
  "is_uint256 x = (0 \<le> x \<and> x \<le> max_uint256)"

datatype RequestType = Deposit | Withdrawal

record PendingRequest =
  requester :: address
  amount :: int
  requestType :: RequestType

text \<open>The value a storage slot of the mapping holds before it is written and after \<^verbatim>\<open>delete\<close>.\<close>

definition no_request :: PendingRequest where
  "no_request = \<lparr>requester = 0, amount = 0, requestType = Deposit\<rparr>"

text \<open>The events, each with the fields its declaration has.\<close>

datatype event =
    DepositRequest bytes32 address int
  | WithdrawalRequest bytes32 address int
  | DepositRequestFulfilled bytes32 address int
  | WithdrawalRequestFulfilled bytes32 address int
  | DepositRequestCancelled bytes32 address int
  | WithdrawalRequestCancelled bytes32 address int
  | RequestFailed bytes
  | UnknownRequestType
  | NoPendingRequest

text \<open>
  The reasons a call reverts: the two custom errors of the contract, the arithmetic panic of
  checked \<^verbatim>\<open>+=\<close> and \<^verbatim>\<open>-=\<close>, a failed \<^verbatim>\<open>transfer\<close>, and a revert inside the oracle
  call of \<^verbatim>\<open>sendRequest\<close>.
\<close>

datatype revert = ZeroAmount | InsufficientBalance | Panic | TransferFailed | OracleReverted

text \<open>
  The state: the two storage mappings, the ether the contract holds, the log of the events this
  contract declares and emits, and the list of ether transfers the contract has made, both in
  order. The events of the inherited client, whose code is not among the sources, are not in the
  log. The stored script source, secrets, subscription id and gas limit are only passed on to the
  oracle and are left out.
\<close>

record vault =
  s_balances :: "address \<Rightarrow> int"
  s_pending :: "bytes32 \<Rightarrow> PendingRequest"
  funds :: int
  events :: "event list"
  payouts :: "(address \<times> int) list"

definition initial_vault :: vault where
  "initial_vault = \<lparr>s_balances = (\<lambda>_. 0), s_pending = (\<lambda>_. no_request), funds = 0,
     events = [], payouts = []\<rparr>"

definition emit :: "event \<Rightarrow> vault \<Rightarrow> vault" where
  "emit e s = s\<lparr>events := events s @ [e]\<rparr>"

section \<open>Dispatch\<close>

text \<open>
  \<^verbatim>\<open>executeRequest\<close> hands the request to the oracle through \<^verbatim>\<open>sendRequest\<close> of the
  inherited client; the oracle chooses the request identifier. Its answer is the argument
  \<open>oracle\<close>: \<open>Some requestId\<close>, or \<open>None\<close> when the oracle call reverts.
\<close>

definition executeRequest :: "bytes32 option \<Rightarrow> revert + bytes32" where
  "executeRequest oracle = (case oracle of None \<Rightarrow> Inl OracleReverted | Some requestId \<Rightarrow> Inr requestId)"

text \<open>
  \<^verbatim>\<open>requestDeposit\<close> is payable: \<open>msg_value\<close> is added to the ether of the contract when the
  call is entered, and a revert undoes it with everything else.
\<close>

definition requestDeposit :: "vault \<Rightarrow> address \<Rightarrow> int \<Rightarrow> bytes32 option \<Rightarrow> revert + vault" where
  "requestDeposit s msg_sender msg_value oracle =
     (if msg_value = 0 then Inl ZeroAmount
      else case executeRequest oracle of
        Inl e \<Rightarrow> Inl e
      | Inr requestId \<Rightarrow>
          Inr (emit (DepositRequest requestId msg_sender msg_value)
                (s\<lparr>funds := funds s + msg_value,
                   s_pending := (s_pending s)(requestId :=
                     \<lparr>requester = msg_sender, amount = msg_value, requestType = Deposit\<rparr>)\<rparr>)))"

definition requestWithdrawal :: "vault \<Rightarrow> address \<Rightarrow> int \<Rightarrow> bytes32 option \<Rightarrow> revert + vault" where
  "requestWithdrawal s msg_sender amt oracle =
     (if amt = 0 then Inl ZeroAmount
      else if amt > s_balances s msg_sender then Inl InsufficientBalance
      else case executeRequest oracle of
        Inl e \<Rightarrow> Inl e
      | Inr requestId \<Rightarrow>
          Inr (emit (WithdrawalRequest requestId msg_sender amt)
                (s\<lparr>s_pending := (s_pending s)(requestId :=
                     \<lparr>requester = msg_sender, amount = amt, requestType = Withdrawal\<rparr>)\<rparr>)))"

definition balanceOf :: "vault \<Rightarrow> address \<Rightarrow> int" where
  "balanceOf s user = s_balances s user"

section \<open>Ledger effects\<close>

text \<open>
  \<^verbatim>\<open>payable(user).transfer(amount)\<close> reverts when the contract holds less than \<open>amount\<close> or
  when the recipient does not accept the ether within the gas stipend; \<open>accepts\<close> is the
  recipient's answer. The stipend is too small for the recipient to call back into the vault.
\<close>

definition transfer :: "vault \<Rightarrow> address \<Rightarrow> int \<Rightarrow> bool \<Rightarrow> revert + vault" where
  "transfer s user amt accepts =
     (if funds s < amt \<or> \<not> accepts then Inl TransferFailed
      else Inr (s\<lparr>funds := funds s - amt, payouts := payouts s @ [(user, amt)]\<rparr>))"

definition executeDeposit :: "vault \<Rightarrow> address \<Rightarrow> int \<Rightarrow> revert + vault" where
  "executeDeposit s user amt =
     (if s_balances s user + amt > max_uint256 then Inl Panic
      else Inr (s\<lparr>s_balances := (s_balances s)(user := s_balances s user + amt)\<rparr>))"

definition executeWithdraw :: "vault \<Rightarrow> address \<Rightarrow> int \<Rightarrow> bool \<Rightarrow> revert + vault" where
  "executeWithdraw s user amt accepts =
     (if s_balances s user - amt < 0 then Inl Panic
      else transfer (s\<lparr>s_balances := (s_balances s)(user := s_balances s user - amt)\<rparr>)
             user amt accepts)"

section \<open>The callback\<close>

text \<open>
  \<^verbatim>\<open>uint256(bytes32(response))\<close>: the conversion to \<^verbatim>\<open>bytes32\<close> keeps the first 32 bytes and
  pads a shorter array with zero bytes at the end; the result is read big-endian.
\<close>

definition bytes32_of :: "bytes \<Rightarrow> bytes" where
  "bytes32_of bs = take 32 bs @ replicate (32 - length bs) 0"

definition uint256_of :: "bytes \<Rightarrow> int" where
  "uint256_of bs = foldl (\<lambda>acc b. acc * 256 + uint b) 0 (bytes32_of bs)"

text \<open>
  \<^verbatim>\<open>fulfillRequest\<close>. The last branch of the source, \<^verbatim>\<open>emit UnknownRequestType()\<close>, is for a
  request type that is neither of the two values of the enum, which no stored entry has.
\<close>

definition fulfillRequest :: "vault \<Rightarrow> bytes32 \<Rightarrow> bytes \<Rightarrow> bytes \<Rightarrow> bool \<Rightarrow> revert + vault" where
  "fulfillRequest s requestId response err accepts =
     (let request = s_pending s requestId in
      if requester request = 0 then Inr (emit NoPendingRequest s)
      else
        let s1 = s\<lparr>s_pending := (s_pending s)(requestId := no_request)\<rparr> in
        if length err > 0 then Inr (emit (RequestFailed err) s1)
        else case requestType request of
          Deposit \<Rightarrow>
            (if uint256_of response = 1 then
               (case executeDeposit s1 (requester request) (amount request) of
                  Inl e \<Rightarrow> Inl e
                | Inr s2 \<Rightarrow>
                    Inr (emit (DepositRequestFulfilled requestId (requester request) (amount request)) s2))
             else
               (case transfer s1 (requester request) (amount request) accepts of
                  Inl e \<Rightarrow> Inl e
                | Inr s2 \<Rightarrow>
                    Inr (emit (DepositRequestCancelled requestId (requester request) (amount request)) s2)))
        | Withdrawal \<Rightarrow>
            (if uint256_of response = 1 then
               (case executeWithdraw s1 (requester request) (amount request) accepts of
                  Inl e \<Rightarrow> Inl e
                | Inr s2 \<Rightarrow>
                    Inr (emit (WithdrawalRequestFulfilled requestId (requester request) (amount request)) s2))
             else
               Inr (emit (WithdrawalRequestCancelled requestId (requester request) (amount request)) s1)))"

section \<open>Transactions and runs\<close>

text \<open>
  A call to the contract with what the environment supplies: the sender, the amount and the
  oracle's answer for a dispatch; the identifier, the two payloads and the recipient's answer to
  a transfer for a callback. A call that reverts leaves the state as it was.
\<close>

datatype call =
    RequestDeposit address int "bytes32 option"
  | RequestWithdrawal address int "bytes32 option"
  | Callback bytes32 bytes bytes bool

fun transact :: "vault \<Rightarrow> call \<Rightarrow> revert + vault" where
  "transact s (RequestDeposit sender v oracle) = requestDeposit s sender v oracle"
| "transact s (RequestWithdrawal sender a oracle) = requestWithdrawal s sender a oracle"
| "transact s (Callback requestId response err accepts) = fulfillRequest s requestId response err accepts"

text \<open>A call completes when it does not revert.\<close>

definition completes :: "revert + vault \<Rightarrow> bool" where
  "completes r = (case r of Inl e \<Rightarrow> False | Inr s' \<Rightarrow> True)"

definition exec :: "vault \<Rightarrow> call \<Rightarrow> vault" where
  "exec s c = (case transact s c of Inl e \<Rightarrow> s | Inr s' \<Rightarrow> s')"

fun run :: "vault \<Rightarrow> call list \<Rightarrow> vault" where
  "run s [] = s"
| "run s (c # cs) = run (exec s c) cs"

text \<open>
  What the platform guarantees of a call: the sender of a transaction is never the zero address,
  and an amount is a \<^verbatim>\<open>uint256\<close>.
\<close>

fun wf_call :: "call \<Rightarrow> bool" where
  "wf_call (RequestDeposit sender v oracle) = (sender \<noteq> 0 \<and> is_uint256 v)"
| "wf_call (RequestWithdrawal sender a oracle) = (sender \<noteq> 0 \<and> is_uint256 a)"
| "wf_call (Callback requestId response err accepts) = True"

text \<open>The test of \<^verbatim>\<open>fulfillRequest\<close> for an entry being there.\<close>

definition pending :: "vault \<Rightarrow> bytes32 \<Rightarrow> bool" where
  "pending s requestId = (requester (s_pending s requestId) \<noteq> 0)"

section \<open>Observations on runs\<close>

text \<open>The events of this contract a call adds to the log; none when the call reverts.\<close>

definition emitted :: "vault \<Rightarrow> call \<Rightarrow> event list" where
  "emitted s c = drop (length (events s)) (events (exec s c))"

text \<open>
  The request identifier, principal and amount an event carries, when its declaration has all
  three.
\<close>

fun carried :: "event \<Rightarrow> (bytes32 \<times> address \<times> int) option" where
  "carried (DepositRequest i r a) = Some (i, r, a)"
| "carried (WithdrawalRequest i r a) = Some (i, r, a)"
| "carried (DepositRequestFulfilled i r a) = Some (i, r, a)"
| "carried (WithdrawalRequestFulfilled i r a) = Some (i, r, a)"
| "carried (DepositRequestCancelled i r a) = Some (i, r, a)"
| "carried (WithdrawalRequestCancelled i r a) = Some (i, r, a)"
| "carried (RequestFailed m) = None"
| "carried UnknownRequestType = None"
| "carried NoPendingRequest = None"

text \<open>The events of the approved, rejected and errored outcomes of a request.\<close>

fun is_effect :: "event \<Rightarrow> bool" where
  "is_effect (DepositRequestFulfilled i r a) = True"
| "is_effect (WithdrawalRequestFulfilled i r a) = True"
| "is_effect (DepositRequestCancelled i r a) = True"
| "is_effect (WithdrawalRequestCancelled i r a) = True"
| "is_effect (RequestFailed m) = True"
| "is_effect e = False"

text \<open>
  A call applies an outcome to \<open>requestId\<close> when it is a callback naming it that emits one of
  these events; \<open>effects_applied\<close> counts such calls along a run.
\<close>

fun applies_effect :: "vault \<Rightarrow> call \<Rightarrow> bytes32 \<Rightarrow> bool" where
  "applies_effect s (Callback i response err accepts) requestId =
     (i = requestId \<and> list_ex is_effect (emitted s (Callback i response err accepts)))"
| "applies_effect s c requestId = False"

fun effects_applied :: "vault \<Rightarrow> call list \<Rightarrow> bytes32 \<Rightarrow> nat" where
  "effects_applied s [] requestId = 0"
| "effects_applied s (c # cs) requestId =
     (if applies_effect s c requestId then 1 else 0) + effects_applied (exec s c) cs requestId"

text \<open>A dispatch issues \<open>requestId\<close> when it goes through and the oracle answers with it.\<close>

fun issues :: "vault \<Rightarrow> call \<Rightarrow> bytes32 \<Rightarrow> bool" where
  "issues s (RequestDeposit sender v oracle) requestId =
     (oracle = Some requestId \<and> completes (requestDeposit s sender v oracle))"
| "issues s (RequestWithdrawal sender a oracle) requestId =
     (oracle = Some requestId \<and> completes (requestWithdrawal s sender a oracle))"
| "issues s (Callback i response err accepts) requestId = False"

fun times_issued :: "vault \<Rightarrow> call list \<Rightarrow> bytes32 \<Rightarrow> nat" where
  "times_issued s [] requestId = 0"
| "times_issued s (c # cs) requestId =
     (if issues s c requestId then 1 else 0) + times_issued (exec s c) cs requestId"

text \<open>
  The registry as the specification describes it, kept beside the run: an identifier enters the
  set when a dispatch that goes through is given it, and leaves it when a callback naming it
  completes. Nothing in it looks at the stored requester.
\<close>

fun register :: "call \<Rightarrow> bytes32 set \<Rightarrow> bytes32 set" where
  "register (RequestDeposit sender v oracle) L = L \<union> set_option oracle"
| "register (RequestWithdrawal sender a oracle) L = L \<union> set_option oracle"
| "register (Callback i response err accepts) L = L - {i}"

fun live_requests :: "vault \<Rightarrow> bytes32 set \<Rightarrow> call list \<Rightarrow> bytes32 set" where
  "live_requests s L [] = L"
| "live_requests s L (c # cs) =
     live_requests (exec s c) (if completes (transact s c) then register c L else L) cs"

section \<open>Concrete scenarios\<close>

definition alice :: address where
  "alice = 0xA11CE"

definition approved :: bytes where
  "approved = replicate 31 0 @ [1]"

definition rejected :: bytes where
  "rejected = replicate 32 0"

text \<open>
  A deposit of 1000 is approved, two withdrawals of 1000 are dispatched, and the first of them
  is approved.
\<close>

definition double_withdrawal :: "call list" where
  "double_withdrawal =
     [RequestDeposit alice 1000 (Some 1), Callback 1 approved [] True,
      RequestWithdrawal alice 1000 (Some 2), RequestWithdrawal alice 1000 (Some 3),
      Callback 2 approved [] True]"

text \<open>
  A deposit of 500 is approved, withdrawals of 300 and of 400 are dispatched, and the second is
  approved.
\<close>

definition overdraw :: "call list" where
  "overdraw =
     [RequestDeposit alice 500 (Some 1), Callback 1 approved [] True,
      RequestWithdrawal alice 300 (Some 2), RequestWithdrawal alice 400 (Some 3),
      Callback 3 approved [] True]"

text \<open>
  After \<open>overdraw\<close>, with a balance of 100, the callback approving the withdrawal of 300
  arrives; then a deposit of 200 is dispatched and approved.
\<close>

definition retried_callback :: "call list" where
  "retried_callback =
     overdraw @
     [Callback 2 approved [] True,
      RequestDeposit alice 200 (Some 4), Callback 4 approved [] True]"

text \<open>A deposit of 1000 has been dispatched and awaits its callback.\<close>

definition deposit_pending :: vault where
  "deposit_pending = run initial_vault [RequestDeposit alice 1000 (Some 1)]"

text \<open>A deposit of 1000 has been approved and a withdrawal of 400 awaits its callback.\<close>

definition deposit_then_withdrawal :: "call list" where
  "deposit_then_withdrawal =
     [RequestDeposit alice 1000 (Some 1), Callback 1 approved [] True,
      RequestWithdrawal alice 400 (Some 2)]"

definition withdrawal_pending :: vault where
  "withdrawal_pending = run initial_vault deposit_then_withdrawal"

text \<open>A deposit of 1000 is dispatched and its approving callback arrives twice.\<close>

definition repeated_callback :: "call list" where
  "repeated_callback =
     [RequestDeposit alice 1000 (Some 1), Callback 1 approved [] True,
      Callback 1 approved [] True]"

section \<open>The verification checker script\<close>

text \<open>
  The script \<^verbatim>\<open>chainalysis.js\<close> runs in JavaScript on parsed JSON. The values it reads are
  modelled with the numbers it meets, status codes and lengths, as integers, and with strings
  of 8-bit characters. Reading a property of \<^verbatim>\<open>undefined\<close> or \<^verbatim>\<open>null\<close> throws a
  \<open>TypeError\<close>; a property an object does not have is \<^verbatim>\<open>undefined\<close>; of several members with
  one name the last one counts. None of the names the script reads is a property of a
  prototype, except \<^verbatim>\<open>length\<close> of arrays and strings.
\<close>

datatype json = JUndefined | JNull | JBool bool | JNumber int | JString string
  | JArray "json list" | JObject "(string \<times> json) list"

datatype js_error = Error json | TypeError



subsection \<open>Conversion of a string to a number\<close>

text \<open>
  Whether the number a string converts to is greater than zero. The string is trimmed of white
  space; the empty string is 0; a decimal literal has an optional sign, digits with an optional
  point, and an optional exponent; \<^verbatim>\<open>Infinity\<close> may carry a sign; a binary, octal or
  hexadecimal literal carries none; every other string is \<^verbatim>\<open>NaN\<close>, which is not greater than
  anything. The decimal value \<open>m * 10 ^ e\<close> is rounded to the nearest double, so it is
  greater than zero exactly when it exceeds \<open>2 ^ -1075\<close>, half the least positive double.
\<close>

definition is_space :: "char \<Rightarrow> bool" where
  "is_space c = (c \<in> set [CHR 0x09, CHR 0x0A, CHR 0x0B, CHR 0x0C, CHR 0x0D, CHR 0x20, CHR 0xA0])"

definition trim :: "string \<Rightarrow> string" where
  "trim s = rev (dropWhile is_space (rev (dropWhile is_space s)))"

definition is_digit :: "char \<Rightarrow> bool" where
  "is_digit c = (c \<in> set ''0123456789'')"

definition decimal :: "string \<Rightarrow> int" where
  "decimal ds = foldl (\<lambda>n c. 10 * n + (of_char c - 48)) 0 ds"

definition digits_value :: "string \<Rightarrow> int option" where
  "digits_value ds = (if ds \<noteq> [] \<and> list_all is_digit ds then Some (decimal ds) else None)"

definition exponent_part :: "string \<Rightarrow> int option" where
  "exponent_part r =
     (case r of
        [] \<Rightarrow> Some 0
      | c # t \<Rightarrow>
          if c = CHR ''e'' \<or> c = CHR ''E'' then
            (case t of
               [] \<Rightarrow> None
             | d # ds \<Rightarrow>
                 if d = CHR ''+'' then digits_value ds
                 else if d = CHR ''-'' then map_option uminus (digits_value ds)
                 else digits_value t)
          else None)"

text \<open>The digits of the mantissa as a number, and the power of ten it is scaled by.\<close>

definition decimal_literal :: "string \<Rightarrow> (int \<times> int) option" where
  "decimal_literal u =
     (let whole = takeWhile is_digit u;
          r = dropWhile is_digit u;
          dotted = (case r of [] \<Rightarrow> False | c # t \<Rightarrow> c = CHR ''.'');
          frac = (if dotted then takeWhile is_digit (tl r) else []);
          rest = (if dotted then dropWhile is_digit (tl r) else r)
      in if whole = [] \<and> frac = [] then None
         else (case exponent_part rest of
                 None \<Rightarrow> None
               | Some e \<Rightarrow> Some (decimal (whole @ frac), e - int (length frac))))"

definition rounds_positive :: "int \<Rightarrow> int \<Rightarrow> bool" where
  "rounds_positive m e = (m \<noteq> 0 \<and> (0 \<le> e \<or> 10 ^ nat (- e) < m * 2 ^ 1075))"

definition unsigned_positive :: "string \<Rightarrow> bool" where
  "unsigned_positive u =
     (u = ''Infinity'' \<or>
      (case decimal_literal u of None \<Rightarrow> False | Some (m, e) \<Rightarrow> rounds_positive m e))"

definition radix_positive :: "string \<Rightarrow> bool" where
  "radix_positive u =
     (case u of
        z # x # ds \<Rightarrow>
          z = CHR ''0'' \<and> ds \<noteq> [] \<and> list_ex (\<lambda>c. c \<noteq> CHR ''0'') ds \<and>
          ((x \<in> set ''xX'' \<and> list_all (\<lambda>c. c \<in> set ''0123456789abcdefABCDEF'') ds) \<or>
           (x \<in> set ''oO'' \<and> list_all (\<lambda>c. c \<in> set ''01234567'') ds) \<or>
           (x \<in> set ''bB'' \<and> list_all (\<lambda>c. c \<in> set ''01'') ds))
      | _ \<Rightarrow> False)"

definition string_positive :: "string \<Rightarrow> bool" where
  "string_positive s =
     (case trim s of
        [] \<Rightarrow> False
      | c # r \<Rightarrow>
          if c = CHR ''-'' then False
          else if c = CHR ''+'' then unsigned_positive r
          else unsigned_positive (c # r) \<or> radix_positive (c # r))"

subsection \<open>Conversion of a value to a string and to a number\<close>

text \<open>
  Converting an object to a primitive calls its \<^verbatim>\<open>toString\<close>, which a parsed object inherits;
  a member of that name, which is never a function, hides it, and the conversion throws a
  \<open>TypeError\<close>. An array is converted by joining the strings of its elements with commas, which
  throws when an element does.
\<close>

fun to_string_throws :: "json \<Rightarrow> bool" where
  "to_string_throws (JObject members) = (''toString'' \<in> fst ` set members)"
| "to_string_throws (JArray xs) = list_ex to_string_throws xs"
| "to_string_throws v = False"

text \<open>
  Whether the string of a value that does not throw converts to a number greater than zero. An
  array of one element has the string of that element, where \<^verbatim>\<open>null\<close> and
  \<^verbatim>\<open>undefined\<close> give the empty string; the string of an array of two or more elements holds a
  comma and that of an object is \<^verbatim>\<open>[object Object]\<close>, neither of which is a number; the
  string of a number converts back to the number.
\<close>

fun text_positive :: "json \<Rightarrow> bool" where
  "text_positive (JNumber n) = (0 < n)"
| "text_positive (JString s) = string_positive s"
| "text_positive (JArray [x]) = text_positive x"
| "text_positive v = False"

text \<open>
  \<^verbatim>\<open>v > 0\<close>: the value is converted to a number, \<^verbatim>\<open>undefined\<close> to \<^verbatim>\<open>NaN\<close>, \<^verbatim>\<open>null\<close> to
  0, a boolean to 0 or 1, a string as above, an object or array through its string.
\<close>

fun greater_zero :: "json \<Rightarrow> js_error + bool" where
  "greater_zero (JNumber n) = Inr (0 < n)"
| "greater_zero (JBool b) = Inr b"
| "greater_zero JUndefined = Inr False"
| "greater_zero JNull = Inr False"
| "greater_zero (JString s) = Inr (string_positive s)"
| "greater_zero (JObject members) =
     (if to_string_throws (JObject members) then Inl TypeError else Inr False)"
| "greater_zero (JArray xs) =
     (if to_string_throws (JArray xs) then Inl TypeError else Inr (text_positive (JArray xs)))"

subsection \<open>The calls and the two checks\<close>










subsection \<open>The verdict of the specification\<close>










subsection \<open>Example services\<close>







section \<open>Facts about the scenarios\<close>

lemma approved_is_one: "uint256_of approved = 1"
  by (simp add: uint256_of_def bytes32_of_def approved_def eval_nat_numeral)

lemma rejected_is_zero: "uint256_of rejected = 0"
  by (simp add: uint256_of_def bytes32_of_def rejected_def eval_nat_numeral)

lemma alice_nonzero: "alice \<noteq> 0"
  by (simp add: alice_def)

lemmas vault_defs = requestDeposit_def requestWithdrawal_def fulfillRequest_def executeRequest_def
  executeDeposit_def executeWithdraw_def transfer_def emit_def exec_def Let_def no_request_def
  initial_vault_def max_uint256_def

lemma withdrawal_pending_entry:
  "s_pending withdrawal_pending 2 = \<lparr>requester = alice, amount = 400, requestType = Withdrawal\<rparr>"
  by (simp add: withdrawal_pending_def deposit_then_withdrawal_def vault_defs approved_is_one
      alice_nonzero)

lemma withdrawal_pending_balance: "s_balances withdrawal_pending alice = 1000"
  by (simp add: withdrawal_pending_def deposit_then_withdrawal_def vault_defs approved_is_one
      alice_nonzero)

lemma withdrawal_pending_funds: "funds withdrawal_pending = 1000"
  by (simp add: withdrawal_pending_def deposit_then_withdrawal_def vault_defs approved_is_one
      alice_nonzero)

lemma deposit_pending_entry:
  "s_pending deposit_pending 1 = \<lparr>requester = alice, amount = 1000, requestType = Deposit\<rparr>"
  by (simp add: deposit_pending_def vault_defs)

lemma deposit_pending_funds: "funds deposit_pending = 1000"
  by (simp add: deposit_pending_def vault_defs)

lemma deposit_pending_balance: "s_balances deposit_pending alice = 0"
  by (simp add: deposit_pending_def vault_defs)

section \<open>Error payloads\<close>

text \<open>
  C5. For a pending request of either kind, a callback with an error payload changes no balance
  and moves no funds, emits \<open>RequestFailed\<close> with the payload, and deletes the pending entry: the
  new state is the old one with the entry reset and the event appended.
\<close>

theorem error_payload_retires_entry:
  assumes "pending s requestId" and "err \<noteq> []"
  shows "fulfillRequest s requestId response err accepts =
           Inr (s\<lparr>s_pending := (s_pending s)(requestId := no_request),
                  events := events s @ [RequestFailed err]\<rparr>)"
  using assms by (simp add: fulfillRequest_def pending_def emit_def Let_def)

theorem error_payload_retires_entry_witness:
  "pending withdrawal_pending 2 \<and> [0x42] \<noteq> ([] :: bytes) \<and>
   fulfillRequest withdrawal_pending 2 [] [0x42] True =
     Inr (withdrawal_pending\<lparr>s_pending := (s_pending withdrawal_pending)(2 := no_request),
            events := events withdrawal_pending @ [RequestFailed [0x42]]\<rparr>)"
proof -
  have p: "pending withdrawal_pending 2"
    by (simp add: pending_def withdrawal_pending_entry alice_nonzero)
  have e: "[0x42] \<noteq> ([] :: bytes)" by simp
  from error_payload_retires_entry [OF p e] p show ?thesis by simp
qed

section \<open>Validation at dispatch\<close>

text \<open>
  C6. \<open>requestDeposit\<close> fails with \<open>ZeroAmount\<close> exactly when the amount is zero;
  \<open>requestWithdrawal\<close> fails with \<open>ZeroAmount\<close> exactly when the amount is zero, and with
  \<open>InsufficientBalance\<close> (the contract's name for insufficient funds) exactly when a non-zero
  amount exceeds the requester's balance, so whenever the amount exceeds a balance that is not
  negative. A call that fails so leaves the state as it was: no escrow, no registry entry.
\<close>

theorem dispatch_validation:
  "(requestDeposit s sender v oracle = Inl ZeroAmount \<longleftrightarrow> v = 0)
   \<and> (requestWithdrawal s sender a oracle = Inl ZeroAmount \<longleftrightarrow> a = 0)
   \<and> (requestWithdrawal s sender a oracle = Inl InsufficientBalance
        \<longleftrightarrow> a \<noteq> 0 \<and> s_balances s sender < a)
   \<and> (0 \<le> s_balances s sender \<and> s_balances s sender < a
        \<longrightarrow> requestWithdrawal s sender a oracle = Inl InsufficientBalance)
   \<and> (v = 0 \<longrightarrow> exec s (RequestDeposit sender v oracle) = s)
   \<and> (a = 0 \<or> s_balances s sender < a \<longrightarrow> exec s (RequestWithdrawal sender a oracle) = s)"
  by (auto simp: requestDeposit_def requestWithdrawal_def executeRequest_def exec_def
      split: option.splits)

theorem dispatch_validation_witness:
  "requestDeposit withdrawal_pending alice 0 (Some 7) = Inl ZeroAmount
   \<and> requestWithdrawal withdrawal_pending alice 0 (Some 7) = Inl ZeroAmount
   \<and> 0 \<le> s_balances withdrawal_pending alice \<and> s_balances withdrawal_pending alice < 5000
   \<and> requestWithdrawal withdrawal_pending alice 5000 (Some 7) = Inl InsufficientBalance
   \<and> exec withdrawal_pending (RequestDeposit alice 0 (Some 7)) = withdrawal_pending
   \<and> exec withdrawal_pending (RequestWithdrawal alice 0 (Some 7)) = withdrawal_pending
   \<and> exec withdrawal_pending (RequestWithdrawal alice 5000 (Some 7)) = withdrawal_pending"
  using dispatch_validation [of withdrawal_pending alice 0 "Some 7" 0]
    dispatch_validation [of withdrawal_pending alice 0 "Some 7" 5000]
  by (simp add: withdrawal_pending_balance)

section \<open>Approved callbacks\<close>

text \<open>
  C3, as the claim states it, fails: a pending withdrawal of 1000 whose callback carries the
  payload 1 is not debited, paid out or announced when the requester's balance has meanwhile
  dropped to 0; the checked subtraction reverts the callback.
\<close>

theorem approved_withdrawal_counterexample:
  "s_pending (run initial_vault double_withdrawal) 3 =
     \<lparr>requester = alice, amount = 1000, requestType = Withdrawal\<rparr>
   \<and> uint256_of approved = 1
   \<and> s_balances (run initial_vault double_withdrawal) alice = 0
   \<and> fulfillRequest (run initial_vault double_withdrawal) 3 approved [] True = Inl Panic
   \<and> emitted (run initial_vault double_withdrawal) (Callback 3 approved [] True) = []
   \<and> payouts (exec (run initial_vault double_withdrawal) (Callback 3 approved [] True)) =
       payouts (run initial_vault double_withdrawal)"
  by (simp add: double_withdrawal_def emitted_def vault_defs approved_is_one alice_nonzero)

text \<open>
  C3, amended. For a pending request with requester \<open>r\<close> and amount \<open>a\<close> whose callback carries
  a success payload decoding to exactly 1: a Deposit credits \<open>r\<close> with exactly \<open>a\<close> and emits
  \<open>DepositRequestFulfilled\<close>, unless the sum leaves the range of \<^verbatim>\<open>uint256\<close>; a Withdrawal
  debits \<open>r\<close> by exactly \<open>a\<close>, pays \<open>a\<close> to \<open>r\<close> and emits \<open>WithdrawalRequestFulfilled\<close>, unless
  \<open>a\<close> exceeds the balance \<open>r\<close> has at that moment or the transfer fails. In the excepted cases
  the callback reverts. No other principal's balance changes, and the entry is deleted.
\<close>

theorem approved_callback_effect:
  assumes "s_pending s requestId = \<lparr>requester = r, amount = a, requestType = k\<rparr>"
    and "r \<noteq> 0" and "uint256_of response = 1"
  shows "fulfillRequest s requestId response [] accepts =
    (case k of
       Deposit \<Rightarrow>
         if s_balances s r + a \<le> max_uint256
         then Inr (s\<lparr>s_balances := (s_balances s)(r := s_balances s r + a),
                    s_pending := (s_pending s)(requestId := no_request),
                    events := events s @ [DepositRequestFulfilled requestId r a]\<rparr>)
         else Inl Panic
     | Withdrawal \<Rightarrow>
         if s_balances s r < a then Inl Panic
         else if funds s < a \<or> \<not> accepts then Inl TransferFailed
         else Inr (s\<lparr>s_balances := (s_balances s)(r := s_balances s r - a),
                    s_pending := (s_pending s)(requestId := no_request),
                    funds := funds s - a,
                    payouts := payouts s @ [(r, a)],
                    events := events s @ [WithdrawalRequestFulfilled requestId r a]\<rparr>))"
  using assms
  by (cases k)
     (simp_all add: fulfillRequest_def executeDeposit_def executeWithdraw_def transfer_def
        emit_def Let_def)

theorem approved_callback_effect_witness:
  "s_pending withdrawal_pending 2 = \<lparr>requester = alice, amount = 400, requestType = Withdrawal\<rparr>
   \<and> alice \<noteq> 0 \<and> uint256_of approved = 1
   \<and> fulfillRequest withdrawal_pending 2 approved [] True =
       Inr (withdrawal_pending\<lparr>s_balances := (s_balances withdrawal_pending)(alice := 600),
              s_pending := (s_pending withdrawal_pending)(2 := no_request),
              funds := 600,
              payouts := payouts withdrawal_pending @ [(alice, 400)],
              events := events withdrawal_pending @ [WithdrawalRequestFulfilled 2 alice 400]\<rparr>)"
  using approved_callback_effect [OF withdrawal_pending_entry alice_nonzero approved_is_one, of True]
  by (simp add: withdrawal_pending_entry alice_nonzero approved_is_one
      withdrawal_pending_balance withdrawal_pending_funds)

section \<open>Rejected callbacks\<close>

text \<open>
  C4, as the claim states it, fails: a pending deposit of 1000 whose callback carries the
  payload 0 is not returned when the requester does not accept the ether; the transfer reverts
  the callback, nothing is paid and nothing is emitted.
\<close>

theorem rejected_deposit_counterexample:
  "s_pending deposit_pending 1 = \<lparr>requester = alice, amount = 1000, requestType = Deposit\<rparr>
   \<and> uint256_of rejected = 0
   \<and> fulfillRequest deposit_pending 1 rejected [] False = Inl TransferFailed
   \<and> payouts (exec deposit_pending (Callback 1 rejected [] False)) = []
   \<and> emitted deposit_pending (Callback 1 rejected [] False) = []"
  by (simp add: deposit_pending_def emitted_def vault_defs rejected_is_zero alice_nonzero)

text \<open>
  C4, amended. For a pending request whose callback carries a success payload decoding to any
  value other than 1, no balance changes for either kind. A Withdrawal performs no payout and
  emits \<open>WithdrawalRequestCancelled\<close>. A Deposit has its amount transferred to the requester once,
  with \<open>DepositRequestCancelled\<close>, when the contract holds the amount and the requester accepts
  it; otherwise the callback reverts. A callback that completes deletes the entry.
\<close>

theorem rejected_callback_effect:
  assumes "s_pending s requestId = \<lparr>requester = r, amount = a, requestType = k\<rparr>"
    and "r \<noteq> 0" and "uint256_of response \<noteq> 1"
  shows "fulfillRequest s requestId response [] accepts =
    (case k of
       Deposit \<Rightarrow>
         if funds s < a \<or> \<not> accepts then Inl TransferFailed
         else Inr (s\<lparr>s_pending := (s_pending s)(requestId := no_request),
                    funds := funds s - a,
                    payouts := payouts s @ [(r, a)],
                    events := events s @ [DepositRequestCancelled requestId r a]\<rparr>)
     | Withdrawal \<Rightarrow>
         Inr (s\<lparr>s_pending := (s_pending s)(requestId := no_request),
               events := events s @ [WithdrawalRequestCancelled requestId r a]\<rparr>))"
  using assms
  by (cases k) (simp_all add: fulfillRequest_def transfer_def emit_def Let_def)

theorem rejected_callback_effect_witness:
  "s_pending deposit_pending 1 = \<lparr>requester = alice, amount = 1000, requestType = Deposit\<rparr>
   \<and> alice \<noteq> 0 \<and> uint256_of rejected \<noteq> 1
   \<and> fulfillRequest deposit_pending 1 rejected [] True =
       Inr (deposit_pending\<lparr>s_pending := (s_pending deposit_pending)(1 := no_request),
              funds := 0,
              payouts := payouts deposit_pending @ [(alice, 1000)],
              events := events deposit_pending @ [DepositRequestCancelled 1 alice 1000]\<rparr>)"
proof -
  have r: "uint256_of rejected \<noteq> 1" by (simp add: rejected_is_zero)
  from rejected_callback_effect [OF deposit_pending_entry alice_nonzero r, of True]
  show ?thesis
    by (simp add: deposit_pending_entry alice_nonzero r deposit_pending_funds)
qed

section \<open>Callbacks that revert\<close>

text \<open>
  C7, as the claim states it, fails: with a balance of 100 left, the approved callback of a
  pending withdrawal of 300 throws, and the entry is still pending afterwards.
\<close>

theorem callback_revert_counterexample:
  "pending (run initial_vault overdraw) 2
   \<and> fulfillRequest (run initial_vault overdraw) 2 approved [] True = Inl Panic
   \<and> pending (exec (run initial_vault overdraw) (Callback 2 approved [] True)) 2"
  by (simp add: overdraw_def pending_def vault_defs approved_is_one alice_nonzero)

text \<open>
  C7, amended. A callback either completes, and then no entry is pending under its identifier,
  or reverts as a whole, and then balances, registry, funds and log are as before, so a debit
  is all or nothing. It reverts only for a pending request with an empty error payload, with
  \<open>Panic\<close> exactly when an approved deposit leaves the range of \<^verbatim>\<open>uint256\<close> or an approved
  withdrawal exceeds the current balance, and otherwise with a failed transfer. Callbacks for
  unknown identifiers, with an error payload, or rejecting a withdrawal always complete.
\<close>

theorem callback_completes_or_reverts:
  "(fulfillRequest s i response err accepts = Inr s' \<longrightarrow> \<not> pending s' i)
   \<and> (fulfillRequest s i response err accepts = Inl e \<longrightarrow>
        exec s (Callback i response err accepts) = s \<and> pending s i \<and> err = []
        \<and> (e = Panic \<or> e = TransferFailed))
   \<and> (fulfillRequest s i response err accepts = Inl Panic \<longleftrightarrow>
        pending s i \<and> err = [] \<and> uint256_of response = 1
        \<and> (case requestType (s_pending s i) of
              Deposit \<Rightarrow> max_uint256 < s_balances s (requester (s_pending s i)) + amount (s_pending s i)
            | Withdrawal \<Rightarrow> s_balances s (requester (s_pending s i)) < amount (s_pending s i)))
   \<and> (\<not> pending s i \<or> err \<noteq> [] \<or> (requestType (s_pending s i) = Withdrawal \<and> uint256_of response \<noteq> 1)
        \<longrightarrow> completes (fulfillRequest s i response err accepts))"
  by (auto simp: fulfillRequest_def executeDeposit_def executeWithdraw_def transfer_def
      emit_def Let_def pending_def exec_def completes_def no_request_def
      split: RequestType.splits if_splits)

theorem callback_completes_or_reverts_witness:
  "fulfillRequest withdrawal_pending 2 rejected [] True =
     Inr (withdrawal_pending\<lparr>s_pending := (s_pending withdrawal_pending)(2 := no_request),
            events := events withdrawal_pending @ [WithdrawalRequestCancelled 2 alice 400]\<rparr>)
   \<and> \<not> pending (withdrawal_pending\<lparr>s_pending := (s_pending withdrawal_pending)(2 := no_request),
            events := events withdrawal_pending @ [WithdrawalRequestCancelled 2 alice 400]\<rparr>) 2
   \<and> completes (fulfillRequest withdrawal_pending 2 rejected [] True)
   \<and> fulfillRequest withdrawal_pending 2 approved [] False = Inl TransferFailed
   \<and> exec withdrawal_pending (Callback 2 approved [] False) = withdrawal_pending
   \<and> pending withdrawal_pending 2
   \<and> fulfillRequest (run initial_vault overdraw) 2 approved [] True = Inl Panic
   \<and> s_balances (run initial_vault overdraw) alice < 300"
proof -
  let ?s' = "withdrawal_pending\<lparr>s_pending := (s_pending withdrawal_pending)(2 := no_request),
            events := events withdrawal_pending @ [WithdrawalRequestCancelled 2 alice 400]\<rparr>"
  have a: "fulfillRequest withdrawal_pending 2 rejected [] True = Inr ?s'"
    by (simp add: fulfillRequest_def emit_def Let_def withdrawal_pending_entry alice_nonzero
        rejected_is_zero)
  have b: "fulfillRequest withdrawal_pending 2 approved [] False = Inl TransferFailed"
    by (simp add: fulfillRequest_def executeWithdraw_def transfer_def Let_def
        withdrawal_pending_entry withdrawal_pending_balance alice_nonzero approved_is_one)
  have c: "s_pending (run initial_vault overdraw) 2 =
      \<lparr>requester = alice, amount = 300, requestType = Withdrawal\<rparr>"
    by (simp add: overdraw_def vault_defs approved_is_one alice_nonzero)
  have d: "s_balances (run initial_vault overdraw) alice = 100"
    by (simp add: overdraw_def vault_defs approved_is_one alice_nonzero)
  from callback_completes_or_reverts [of withdrawal_pending 2 rejected "[]" True ?s' Panic]
    callback_completes_or_reverts [of withdrawal_pending 2 approved "[]" False ?s' TransferFailed]
    callback_completes_or_reverts [of "run initial_vault overdraw" 2 approved "[]" True ?s' Panic]
  show ?thesis
    by (simp add: a b c d pending_def alice_nonzero approved_is_one rejected_is_zero
        withdrawal_pending_entry)
qed

section \<open>Balances stay within range\<close>

text \<open>
  A call by a non-zero sender with a \<^verbatim>\<open>uint256\<close> amount keeps every stored amount
  non-negative and every balance within \<^verbatim>\<open>uint256\<close>: a credit that would leave the range and
  a debit that would go below zero revert.
\<close>

lemma exec_amounts:
  assumes "wf_call c" and "\<forall>i. 0 \<le> amount (s_pending s i)"
  shows "0 \<le> amount (s_pending (exec s c) j)"
  using assms
  by (cases c)
     (auto simp: exec_def requestDeposit_def requestWithdrawal_def fulfillRequest_def
        executeRequest_def executeDeposit_def executeWithdraw_def transfer_def emit_def
        Let_def no_request_def is_uint256_def
        split: option.splits RequestType.splits if_splits)

lemma exec_balances:
  assumes "wf_call c" and "\<forall>i. 0 \<le> amount (s_pending s i)"
    and "\<forall>p. is_uint256 (s_balances s p)"
  shows "is_uint256 (s_balances (exec s c) q)"
proof (cases c)
  case (RequestDeposit sender v orc)
  with assms(3) show ?thesis
    by (auto simp: exec_def requestDeposit_def executeRequest_def emit_def split: option.splits)
next
  case (RequestWithdrawal sender a orc)
  with assms(3) show ?thesis
    by (auto simp: exec_def requestWithdrawal_def executeRequest_def emit_def split: option.splits)
next
  case (Callback i response err accepts)
  have a: "0 \<le> amount (s_pending s i)" using assms(2) by simp
  have b: "is_uint256 (s_balances s (requester (s_pending s i)))" using assms(3) by simp
  have c: "is_uint256 (s_balances s q)" using assms(3) by simp
  from Callback a b c show ?thesis
    by (auto simp: exec_def fulfillRequest_def executeDeposit_def executeWithdraw_def
        transfer_def emit_def Let_def is_uint256_def
        split: RequestType.splits if_splits)
qed

lemma run_balances:
  assumes "list_all wf_call cs" and "\<forall>i. 0 \<le> amount (s_pending s i)"
    and "\<forall>p. is_uint256 (s_balances s p)"
  shows "is_uint256 (s_balances (run s cs) q)"
  using assms
proof (induction cs arbitrary: s)
  case Nil
  then show ?case by simp
next
  case (Cons c cs)
  have w: "wf_call c" and ws: "list_all wf_call cs" using Cons.prems(1) by simp_all
  have "\<forall>i. 0 \<le> amount (s_pending (exec s c) i)"
    using exec_amounts [OF w Cons.prems(2)] by simp
  moreover have "\<forall>p. is_uint256 (s_balances (exec s c) p)"
    using exec_balances [OF w Cons.prems(2) Cons.prems(3)] by simp
  ultimately show ?case
    using Cons.IH [OF ws] by simp
qed

text \<open>
  C1. In every state the vault reaches from its initial state by dispatches and callbacks, the
  balance of every principal is non-negative (and fits \<^verbatim>\<open>uint256\<close>). The sequence is
  arbitrary: it includes two approved withdrawals whose amounts together exceed the balance at
  dispatch, where the second debit reverts.
\<close>

theorem balances_never_negative:
  assumes "list_all wf_call cs"
  shows "0 \<le> balanceOf (run initial_vault cs) p \<and> balanceOf (run initial_vault cs) p \<le> max_uint256"
proof -
  have "is_uint256 (s_balances (run initial_vault cs) p)"
    by (rule run_balances [OF assms])
       (simp_all add: initial_vault_def no_request_def is_uint256_def max_uint256_def)
  then show ?thesis by (simp add: balanceOf_def is_uint256_def)
qed


theorem balances_never_negative_witness:
  "list_all wf_call (double_withdrawal @ [Callback 3 approved [] True])
   \<and> 0 \<le> balanceOf (run initial_vault (double_withdrawal @ [Callback 3 approved [] True])) alice
   \<and> balanceOf (run initial_vault (double_withdrawal @ [Callback 3 approved [] True])) alice = 0"
proof -
  have w: "list_all wf_call (double_withdrawal @ [Callback 3 approved [] True])"
    by (simp add: double_withdrawal_def alice_nonzero is_uint256_def max_uint256_def)
  have "balanceOf (run initial_vault (double_withdrawal @ [Callback 3 approved [] True])) alice = 0"
    by (simp add: double_withdrawal_def balanceOf_def vault_defs approved_is_one alice_nonzero)
  with balances_never_negative [OF w, of alice] w show ?thesis by simp
qed

section \<open>One outcome for each request\<close>

lemma unknown_callback:
  "\<not> pending s i \<Longrightarrow>
     fulfillRequest s i response err accepts = Inr (s\<lparr>events := events s @ [NoPendingRequest]\<rparr>)"
  by (simp add: fulfillRequest_def pending_def emit_def Let_def)

lemma completed_callback_retires:
  "fulfillRequest s i response err accepts = Inr s' \<Longrightarrow> \<not> pending s' i"
  by (auto simp: fulfillRequest_def executeDeposit_def executeWithdraw_def transfer_def
      emit_def Let_def pending_def no_request_def
      split: RequestType.splits if_splits)

lemma effect_needs_pending:
  assumes "applies_effect s c i"
  shows "pending s i \<and> \<not> pending (exec s c) i"
proof -
  from assms obtain response err accepts
    where c: "c = Callback i response err accepts" and e: "list_ex is_effect (emitted s c)"
    by (cases c) auto
  have p: "pending s i"
  proof (rule ccontr)
    assume "\<not> pending s i"
    then have "emitted s c = [NoPendingRequest]"
      using c by (simp add: emitted_def exec_def unknown_callback)
    with e show False by simp
  qed
  have "\<not> pending (exec s c) i"
  proof (cases "fulfillRequest s i response err accepts")
    case (Inl r)
    then have "emitted s c = []" using c by (simp add: emitted_def exec_def)
    with e show ?thesis by simp
  next
    case (Inr s')
    then show ?thesis
      using c completed_callback_retires [OF Inr] by (simp add: exec_def)
  qed
  with p show ?thesis by simp
qed

lemma pending_after_exec:
  assumes "pending (exec s c) i"
  shows "pending s i \<or> issues s c i"
  using assms
  by (cases c)
     (auto simp: exec_def requestDeposit_def requestWithdrawal_def fulfillRequest_def
        executeRequest_def executeDeposit_def executeWithdraw_def transfer_def emit_def
        Let_def no_request_def pending_def completes_def
        split: option.splits RequestType.splits if_splits)

lemma effects_bounded:
  "effects_applied s cs i \<le> (if pending s i then 1 else 0) + times_issued s cs i"
proof (induction cs arbitrary: s)
  case Nil
  then show ?case by simp
next
  case (Cons c cs)
  have step: "(if applies_effect s c i then 1 else 0) + (if pending (exec s c) i then 1 else (0::nat))
      \<le> (if pending s i then 1 else 0) + (if issues s c i then 1 else 0)"
    using effect_needs_pending [of s c i] pending_after_exec [of s c i] by auto
  from Cons.IH [of "exec s c"] step show ?case by simp
qed

lemma reverted_callback:
  assumes "fulfillRequest s i response err accepts = Inl e"
  shows "exec s (Callback i response err accepts) = s
     \<and> \<not> applies_effect s (Callback i response err accepts) i"
  using assms by (simp add: exec_def emitted_def)

text \<open>
  C2, as the claim states it, fails: the first callback naming a live identifier need not
  delete its entry, and a second callback for the same identifier need not find none. With a
  balance of 100, the approving callback of the pending withdrawal 2 of 300 reverts and leaves
  the entry pending; once the balance has risen to 300, a second callback for 2 finds the
  entry and emits \<open>WithdrawalRequestFulfilled\<close>, not \<open>NoPendingRequest\<close>.
\<close>

theorem first_callback_counterexample:
  "pending (run initial_vault overdraw) 2
   \<and> fulfillRequest (run initial_vault overdraw) 2 approved [] True = Inl Panic
   \<and> run initial_vault (overdraw @ [Callback 2 approved [] True]) = run initial_vault overdraw
   \<and> pending (run initial_vault retried_callback) 2
   \<and> emitted (run initial_vault retried_callback) (Callback 2 approved [] True) =
       [WithdrawalRequestFulfilled 2 alice 300]
   \<and> effects_applied initial_vault (retried_callback @ [Callback 2 approved [] True]) 2 = 1"
  by (simp add: retried_callback_def overdraw_def pending_def emitted_def vault_defs
      approved_is_one alice_nonzero)

text \<open>
  C2, amended. Along any run, the callbacks that apply an approved, rejected or errored outcome
  to a request identifier are at most as many as the times the identifier was issued, plus one
  if it was pending at the start; so from the initial state an identifier issued at most once
  has at most one outcome applied. A callback that completes on a pending identifier leaves it
  not pending; a callback that reverts applies no outcome and leaves the state, and with it
  the entry, as it was. A callback whose identifier is not pending, because a completed
  callback consumed it or it was never issued, changes nothing but the log, to which it adds
  \<open>NoPendingRequest\<close> alone.
\<close>

theorem at_most_one_effect:
  "effects_applied s cs i \<le> (if pending s i then 1 else 0) + times_issued s cs i
   \<and> (times_issued initial_vault cs i \<le> 1 \<longrightarrow> effects_applied initial_vault cs i \<le> 1)
   \<and> (pending s i \<and> fulfillRequest s i response err accepts = Inr s' \<longrightarrow> \<not> pending s' i)
   \<and> (fulfillRequest s i response err accepts = Inl e \<longrightarrow>
        exec s (Callback i response err accepts) = s
        \<and> \<not> applies_effect s (Callback i response err accepts) i)
   \<and> (\<not> pending s i \<longrightarrow>
        fulfillRequest s i response err accepts = Inr (s\<lparr>events := events s @ [NoPendingRequest]\<rparr>))"
proof -
  have "\<not> pending initial_vault i"
    by (simp add: pending_def initial_vault_def no_request_def)
  then have "effects_applied initial_vault cs i \<le> times_issued initial_vault cs i"
    using effects_bounded [of initial_vault cs i] by simp
  then show ?thesis
    using effects_bounded [of s cs i] unknown_callback [of s i response err accepts]
      completed_callback_retires [of s i response err accepts s']
      reverted_callback [of s i response err accepts e]
    by auto
qed

theorem at_most_one_effect_witness:
  "times_issued initial_vault repeated_callback 1 \<le> 1
   \<and> effects_applied initial_vault repeated_callback 1 = 1
   \<and> pending deposit_pending 1
   \<and> fulfillRequest deposit_pending 1 approved [] True =
       Inr (deposit_pending\<lparr>s_balances := (s_balances deposit_pending)(alice := 1000),
              s_pending := (s_pending deposit_pending)(1 := no_request),
              events := events deposit_pending @ [DepositRequestFulfilled 1 alice 1000]\<rparr>)
   \<and> \<not> pending (deposit_pending\<lparr>s_balances := (s_balances deposit_pending)(alice := 1000),
              s_pending := (s_pending deposit_pending)(1 := no_request),
              events := events deposit_pending @ [DepositRequestFulfilled 1 alice 1000]\<rparr>) 1
   \<and> fulfillRequest deposit_pending 1 rejected [] False = Inl TransferFailed
   \<and> exec deposit_pending (Callback 1 rejected [] False) = deposit_pending
   \<and> \<not> applies_effect deposit_pending (Callback 1 rejected [] False) 1
   \<and> \<not> pending deposit_pending 9
   \<and> fulfillRequest deposit_pending 9 approved [] True =
       Inr (deposit_pending\<lparr>events := events deposit_pending @ [NoPendingRequest]\<rparr>)"
proof -
  let ?s' = "deposit_pending\<lparr>s_balances := (s_balances deposit_pending)(alice := 1000),
              s_pending := (s_pending deposit_pending)(1 := no_request),
              events := events deposit_pending @ [DepositRequestFulfilled 1 alice 1000]\<rparr>"
  have a: "times_issued initial_vault repeated_callback 1 = 1"
    by (simp add: repeated_callback_def completes_def vault_defs approved_is_one alice_nonzero)
  have b: "effects_applied initial_vault repeated_callback 1 = 1"
    by (simp add: repeated_callback_def emitted_def vault_defs approved_is_one alice_nonzero)
  have c: "pending deposit_pending 1"
    by (simp add: pending_def deposit_pending_entry alice_nonzero)
  have d: "fulfillRequest deposit_pending 1 approved [] True = Inr ?s'"
    by (simp add: fulfillRequest_def executeDeposit_def emit_def Let_def max_uint256_def
        deposit_pending_entry deposit_pending_balance alice_nonzero approved_is_one)
  have e: "\<not> pending deposit_pending 9"
    by (simp add: pending_def deposit_pending_def vault_defs)
  have f: "fulfillRequest deposit_pending 1 rejected [] False = Inl TransferFailed"
    by (simp add: fulfillRequest_def transfer_def Let_def deposit_pending_entry alice_nonzero
        rejected_is_zero)
  from at_most_one_effect [where s = initial_vault and cs = repeated_callback and i = 1
      and response = approved and err = "[]" and accepts = True and s' = ?s' and e = Panic]
    at_most_one_effect [where s = deposit_pending and cs = "[]" and i = 1
      and response = approved and err = "[]" and accepts = True and s' = ?s' and e = Panic]
    at_most_one_effect [where s = deposit_pending and cs = "[]" and i = 1
      and response = rejected and err = "[]" and accepts = False and s' = ?s'
      and e = TransferFailed]
    at_most_one_effect [where s = deposit_pending and cs = "[]" and i = 9
      and response = approved and err = "[]" and accepts = True and s' = ?s' and e = Panic]
  show ?thesis
    using a b c d e f by simp
qed

section \<open>Pending entries are well formed\<close>

lemma registry_step:
  assumes "wf_call c"
    and "\<forall>i. (i \<in> L \<longleftrightarrow> pending s i) \<and> (pending s i \<longrightarrow> 0 < amount (s_pending s i))"
  shows "(j \<in> (if completes (transact s c) then register c L else L) \<longleftrightarrow> pending (exec s c) j)
     \<and> (pending (exec s c) j \<longrightarrow> 0 < amount (s_pending (exec s c) j))"
proof -
  have a: "(j \<in> L \<longleftrightarrow> pending s j) \<and> (pending s j \<longrightarrow> 0 < amount (s_pending s j))"
    using assms(2) by simp
  show ?thesis
  proof (cases c)
    case (RequestDeposit sender v orc)
    with assms(1) a show ?thesis
      by (auto simp: exec_def requestDeposit_def executeRequest_def emit_def pending_def
          completes_def is_uint256_def split: option.splits)
  next
    case (RequestWithdrawal sender v orc)
    with assms(1) a show ?thesis
      by (auto simp: exec_def requestWithdrawal_def executeRequest_def emit_def pending_def
          completes_def is_uint256_def split: option.splits)
  next
    case (Callback i response err accepts)
    have b: "(i \<in> L \<longleftrightarrow> pending s i)" using assms(2) by simp
    from Callback a b show ?thesis
      by (auto simp: exec_def fulfillRequest_def executeDeposit_def executeWithdraw_def
          transfer_def emit_def Let_def pending_def completes_def no_request_def
          split: RequestType.splits if_splits)
  qed
qed

lemma registry_run:
  assumes "list_all wf_call cs"
    and "\<forall>i. (i \<in> L \<longleftrightarrow> pending s i) \<and> (pending s i \<longrightarrow> 0 < amount (s_pending s i))"
  shows "(j \<in> live_requests s L cs \<longleftrightarrow> pending (run s cs) j)
     \<and> (pending (run s cs) j \<longrightarrow> 0 < amount (s_pending (run s cs) j))"
  using assms
proof (induction cs arbitrary: s L)
  case Nil
  then show ?case by simp
next
  case (Cons c cs)
  have w: "wf_call c" and ws: "list_all wf_call cs" using Cons.prems(1) by simp_all
  let ?L = "if completes (transact s c) then register c L else L"
  have "\<forall>i. (i \<in> ?L \<longleftrightarrow> pending (exec s c) i)
      \<and> (pending (exec s c) i \<longrightarrow> 0 < amount (s_pending (exec s c) i))"
    using registry_step [OF w Cons.prems(2)] by blast
  from Cons.IH [OF ws this] show ?case by simp
qed

text \<open>
  C10. Along any run of calls by non-zero senders with \<^verbatim>\<open>uint256\<close> amounts, the identifiers
  that were issued and not yet consumed are exactly those whose stored requester is not the
  zero address, so the test of the callback never takes a live entry for an absent one; and
  every live entry has a strictly positive amount.
\<close>

theorem live_entries_well_formed:
  assumes "list_all wf_call cs"
  shows "(i \<in> live_requests initial_vault {} cs \<longleftrightarrow> requester (s_pending (run initial_vault cs) i) \<noteq> 0)
     \<and> (i \<in> live_requests initial_vault {} cs \<longrightarrow> 0 < amount (s_pending (run initial_vault cs) i))"
proof -
  have "\<forall>i. (i \<in> {} \<longleftrightarrow> pending initial_vault i)
      \<and> (pending initial_vault i \<longrightarrow> 0 < amount (s_pending initial_vault i))"
    by (simp add: pending_def initial_vault_def no_request_def)
  from registry_run [OF assms this, of i] show ?thesis
    by (auto simp: pending_def)
qed

theorem live_entries_well_formed_witness:
  "list_all wf_call deposit_then_withdrawal
   \<and> 2 \<in> live_requests initial_vault {} deposit_then_withdrawal
   \<and> requester (s_pending (run initial_vault deposit_then_withdrawal) 2) \<noteq> 0
   \<and> 0 < amount (s_pending (run initial_vault deposit_then_withdrawal) 2)
   \<and> 1 \<notin> live_requests initial_vault {} deposit_then_withdrawal
   \<and> requester (s_pending (run initial_vault deposit_then_withdrawal) 1) = 0"
proof -
  have w: "list_all wf_call deposit_then_withdrawal"
    by (simp add: deposit_then_withdrawal_def alice_nonzero is_uint256_def max_uint256_def)
  have l: "live_requests initial_vault {} deposit_then_withdrawal = {2}"
    by (simp add: deposit_then_withdrawal_def completes_def vault_defs approved_is_one
        alice_nonzero)
  from live_entries_well_formed [OF w, of 2] live_entries_well_formed [OF w, of 1] w l
  show ?thesis by simp
qed

section \<open>What the events carry\<close>

text \<open>
  C8, as the claim states it, fails: the event of an error payload is \<open>RequestFailed\<close>, which
  carries the error bytes and neither identifier, principal nor amount, and the event of an
  unknown identifier is \<open>NoPendingRequest\<close>, which carries nothing.
\<close>

theorem event_contents_counterexample:
  "RequestFailed [0x42] \<in> set (emitted withdrawal_pending (Callback 2 [] [0x42] True))
   \<and> carried (RequestFailed [0x42]) = None
   \<and> NoPendingRequest \<in> set (emitted withdrawal_pending (Callback 9 approved [] True))
   \<and> carried NoPendingRequest = None"
  by (simp add: emitted_def exec_def fulfillRequest_def emit_def Let_def
      withdrawal_pending_entry alice_nonzero withdrawal_pending_def deposit_then_withdrawal_def
      vault_defs approved_is_one)

text \<open>
  C8, amended. Of the events the core emits, the request events (\<open>DepositRequest\<close>,
  \<open>WithdrawalRequest\<close>) and the fulfilled and cancelled events carry the request identifier,
  the requester and the amount; \<open>RequestFailed\<close> carries only the error payload, and
  \<open>NoPendingRequest\<close> carries no data. Which event a call emits is fixed by the call: a
  dispatch emits its request event, a callback for an identifier that is not pending
  \<open>NoPendingRequest\<close>, a callback with an error payload \<open>RequestFailed\<close>, and a callback with a
  success payload the fulfilled or cancelled event of the request's kind.
\<close>

theorem event_contents:
  assumes "e \<in> set (emitted s c)"
  shows "case c of
      RequestDeposit sender v orc \<Rightarrow>
        (\<exists>i. orc = Some i \<and> e = DepositRequest i sender v \<and> carried e = Some (i, sender, v))
    | RequestWithdrawal sender a orc \<Rightarrow>
        (\<exists>i. orc = Some i \<and> e = WithdrawalRequest i sender a \<and> carried e = Some (i, sender, a))
    | Callback i response err accepts \<Rightarrow>
        (if \<not> pending s i then e = NoPendingRequest \<and> carried e = None
         else if err \<noteq> [] then e = RequestFailed err \<and> carried e = None
         else e = (case requestType (s_pending s i) of
                     Deposit \<Rightarrow>
                       if uint256_of response = 1
                       then DepositRequestFulfilled i (requester (s_pending s i)) (amount (s_pending s i))
                       else DepositRequestCancelled i (requester (s_pending s i)) (amount (s_pending s i))
                   | Withdrawal \<Rightarrow>
                       if uint256_of response = 1
                       then WithdrawalRequestFulfilled i (requester (s_pending s i)) (amount (s_pending s i))
                       else WithdrawalRequestCancelled i (requester (s_pending s i)) (amount (s_pending s i)))
              \<and> carried e = Some (i, requester (s_pending s i), amount (s_pending s i)))"
  using assms
  by (cases c)
     (auto simp: emitted_def exec_def requestDeposit_def requestWithdrawal_def fulfillRequest_def
        executeRequest_def executeDeposit_def executeWithdraw_def transfer_def emit_def
        Let_def pending_def
        split: option.splits RequestType.splits if_splits)

theorem event_contents_witness:
  "WithdrawalRequestFulfilled 2 alice 400
     \<in> set (emitted withdrawal_pending (Callback 2 approved [] True))
   \<and> pending withdrawal_pending 2
   \<and> s_pending withdrawal_pending 2 =
       \<lparr>requester = alice, amount = 400, requestType = Withdrawal\<rparr>
   \<and> carried (WithdrawalRequestFulfilled 2 alice 400) = Some (2, alice, 400)
   \<and> DepositRequest 7 alice 50 \<in> set (emitted withdrawal_pending (RequestDeposit alice 50 (Some 7)))
   \<and> carried (DepositRequest 7 alice 50) = Some (7, alice, 50)"
proof -
  have a: "emitted withdrawal_pending (Callback 2 approved [] True) =
      [WithdrawalRequestFulfilled 2 alice 400]"
    by (simp add: emitted_def exec_def fulfillRequest_def executeWithdraw_def transfer_def
        emit_def Let_def withdrawal_pending_entry withdrawal_pending_balance
        withdrawal_pending_funds alice_nonzero approved_is_one)
  have b: "emitted withdrawal_pending (RequestDeposit alice 50 (Some 7)) =
      [DepositRequest 7 alice 50]"
    by (simp add: emitted_def exec_def requestDeposit_def executeRequest_def emit_def)
  have m: "WithdrawalRequestFulfilled 2 alice 400
      \<in> set (emitted withdrawal_pending (Callback 2 approved [] True))"
    using a by simp
  have n: "DepositRequest 7 alice 50
      \<in> set (emitted withdrawal_pending (RequestDeposit alice 50 (Some 7)))"
    using b by simp
  from event_contents [OF m] event_contents [OF n] m n
  show ?thesis
    by (simp add: pending_def withdrawal_pending_entry alice_nonzero approved_is_one)
qed

section \<open>The checker script\<close>





text \<open>Some comparisons with zero, as the language evaluates them.\<close>

lemmas string_defs = string_positive_def trim_def is_space_def unsigned_positive_def
  radix_positive_def decimal_literal_def is_digit_def exponent_part_def digits_value_def
  decimal_def rounds_positive_def

lemma greater_zero_examples:
  "greater_zero (JString ''5'') = Inr True"
  "greater_zero (JString '' 0.5e1 '') = Inr True"
  "greater_zero (JString ''-5'') = Inr False"
  "greater_zero (JString '''') = Inr False"
  "greater_zero (JString ''five'') = Inr False"
  "greater_zero (JString ''0x1F'') = Inr True"
  "greater_zero (JString ''1e-400'') = Inr False"
  "greater_zero (JArray []) = Inr False"
  "greater_zero (JArray [JNumber 5]) = Inr True"
  "greater_zero (JArray [JNumber 1, JNumber 2]) = Inr False"
  "greater_zero (JObject [(''a'', JNumber 1)]) = Inr False"
  "greater_zero (JObject [(''toString'', JNumber 1)]) = Inl TypeError"
  "greater_zero JUndefined = Inr False"
  by (simp_all add: string_defs)















end
